theory Spec2Isabelle
  imports Main
begin

section \<open>Values of the Python program\<close>

text \<open>
  \<open>bytes\<close> objects are lists of 8-bit characters. A Python \<open>str\<close> is a sequence of
  Unicode code points, kept here as a list of numbers; \<open>ascii\<close> turns an ASCII literal of
  the source into such a sequence.
\<close>

type_synonym bytes = string

type_synonym pystr = "nat list"

definition ascii :: "string \<Rightarrow> pystr" where
  "ascii s = map of_char s"

text \<open>
  An exception instance, of a subclass of \<open>Exception\<close>: what \<open>except Exception as e\<close>
  catches (\<open>KeyboardInterrupt\<close> and \<open>SystemExit\<close> are not such instances). The handler
  only ever looks at \<open>str(e)\<close>, so the instance is represented by that message.
\<close>

datatype exn = Exn (str_exn: pystr)

text \<open>
  The values \<open>json.loads\<close> produces. A float is a dyadic number \<open>m * 2 ^ e\<close>, an infinity
  or NaN (the decoder accepts \<open>NaN\<close>, \<open>Infinity\<close> and \<open>-Infinity\<close>). An object holds its
  pairs in document order; the decoder builds the \<open>dict\<close> from them, a later duplicate key
  replacing an earlier one.
\<close>

datatype pyfloat = Finite int int | Inf bool | NaN

datatype json =
    JNull
  | JBool bool
  | JInt int
  | JFloat pyfloat
  | JStr pystr
  | JArr "json list"
  | JObj "(pystr \<times> json) list"

text \<open>Python truth value testing, as \<open>not text\<close> applies it.\<close>

fun falsy :: "json \<Rightarrow> bool" where
  "falsy JNull = True"
| "falsy (JBool b) = (\<not> b)"
| "falsy (JInt i) = (i = 0)"
| "falsy (JFloat (Finite m e)) = (m = 0)"
| "falsy (JFloat (Inf neg)) = False"
| "falsy (JFloat NaN) = False"
| "falsy (JStr s) = (s = [])"
| "falsy (JArr xs) = (xs = [])"
| "falsy (JObj kvs) = (kvs = [])"

text \<open>The name Python prints for the type of a value, as in \<open>type(x).__name__\<close>.\<close>

fun type_name :: "json \<Rightarrow> string" where
  "type_name JNull = ''NoneType''"
| "type_name (JBool b) = ''bool''"
| "type_name (JInt i) = ''int''"
| "type_name (JFloat f) = ''float''"
| "type_name (JStr s) = ''str''"
| "type_name (JArr xs) = ''list''"
| "type_name (JObj kvs) = ''dict''"

text \<open>
  \<open>data.get(key, default)\<close> on a decoded value: only a \<open>dict\<close> has the method, any other
  value raises \<open>AttributeError\<close>.
\<close>

definition attribute_error :: "json \<Rightarrow> string \<Rightarrow> exn" where
  "attribute_error v name =
     Exn (ascii ([CHR 0x27] @ type_name v @ [CHR 0x27] @ '' object has no attribute ''
                 @ [CHR 0x27] @ name @ [CHR 0x27]))"

fun dict_get :: "json \<Rightarrow> pystr \<Rightarrow> json \<Rightarrow> exn + json" where
  "dict_get (JObj kvs) key dflt =
     (case map_of (rev kvs) key of None \<Rightarrow> Inr dflt | Some v \<Rightarrow> Inr v)"
| "dict_get v key dflt = Inl (attribute_error v ''get'')"

section \<open>The external engine and the synthesis bridge\<close>

text \<open>
  A chunk of \<open>edge_tts\<close>: a dictionary with a \<open>type\<close> entry and, for audio chunks, a
  \<open>data\<close> entry. A stream is the finite sequence of what the asynchronous iterator does:
  it yields a chunk or raises, and ends when the list ends.
\<close>

record chunk =
  chunk_type :: pystr
  chunk_data :: "bytes option"

datatype stream_item = Yield chunk | Raise exn

definition VOICE :: pystr where
  "VOICE = ascii ''en-GB-RyanNeural''"

definition key_error :: "string \<Rightarrow> exn" where
  "key_error k = Exn (ascii ([CHR 0x27] @ k @ [CHR 0x27]))"

text \<open>
  The \<open>async for\<close> loop of \<open>generate_audio\<close>; the second argument is the content of
  \<open>audio_data\<close> so far. \<open>chunk["data"]\<close> on a chunk without that entry raises
  \<open>KeyError\<close>.
\<close>

fun consume :: "stream_item list \<Rightarrow> bytes \<Rightarrow> exn + bytes" where
  "consume [] audio_data = Inr audio_data"
| "consume (Raise e # rest) audio_data = Inl e"
| "consume (Yield c # rest) audio_data =
     (if chunk_type c = ascii ''audio''
      then (case chunk_data c of
              None \<Rightarrow> Inl (key_error ''data'')
            | Some d \<Rightarrow> consume rest (audio_data @ d))
      else consume rest audio_data)"

text \<open>
  What the Python runtime and the engine contribute, as parameters: \<open>int(s)\<close> on a header
  value, \<open>bytes.decode('utf-8')\<close>, \<open>json.loads\<close>, the engine (\<open>Inl\<close> when
  \<open>edge_tts.Communicate(text, voice)\<close> itself raises, else the stream of
  \<open>communicate.stream()\<close>), and the two strings \<open>send_response\<close> puts into the
  \<open>Server\<close> and \<open>Date\<close> headers.
\<close>

record env =
  py_int :: "string \<Rightarrow> exn + int"
  decode_utf8 :: "bytes \<Rightarrow> exn + pystr"
  json_loads :: "pystr \<Rightarrow> exn + json"
  communicate :: "json \<Rightarrow> pystr \<Rightarrow> exn + stream_item list"
  version_string :: string
  date_time_string :: string

section \<open>The handler's state\<close>

text \<open>
  What goes to the client, piece by piece: the status line, a header line, the blank line
  that ends the headers, and bytes written after them.
\<close>

datatype wire = StatusLine nat | HeaderLine string string | EndHeaders | Body bytes

text \<open>
  \<open>headers_buffer\<close> is \<open>self._headers_buffer\<close>, \<open>wfile\<close> everything the socket has
  accepted so far. \<open>faults\<close> scripts the socket: each \<open>wfile.write\<close> takes the next
  entry and raises it when it is an exception; past the end of the script every write
  succeeds. \<open>engine_calls\<close> records each \<open>edge_tts.Communicate(text, voice)\<close>.
\<close>

record state =
  headers_buffer :: "wire list"
  wfile :: "wire list"
  faults :: "exn option list"
  engine_calls :: "(json \<times> pystr) list"

definition fresh :: "exn option list \<Rightarrow> state" where
  "fresh fs = \<lparr>headers_buffer = [], wfile = [], faults = fs, engine_calls = []\<rparr>"

text \<open>
  \<open>generate_audio\<close>, run to completion by \<open>asyncio.run\<close>: the call returns the buffer
  or raises what the engine raised. \<open>text\<close> is whatever the handler passes; the annotation
  \<open>str\<close> is not enforced. A stream that never ends is not represented.
\<close>

definition generate_audio :: "env \<Rightarrow> json \<Rightarrow> state \<Rightarrow> (exn + bytes) \<times> state" where
  "generate_audio E text s =
     (let s' = s\<lparr>engine_calls := engine_calls s @ [(text, VOICE)]\<rparr>
      in case communicate E text VOICE of
           Inl e \<Rightarrow> (Inl e, s')
         | Inr stream \<Rightarrow> (consume stream [], s'))"

section \<open>\<open>BaseHTTPRequestHandler\<close>\<close>

text \<open>
  The methods of the library class that the source calls. \<open>send_response\<close> buffers the
  status line and, as the library does, a \<open>Server\<close> and a \<open>Date\<close> header; its log
  line goes to \<open>stderr\<close> and is no part of the response. \<open>send_header\<close> buffers one
  line. \<open>wfile.write\<close> hands its argument to the socket: all of it, or none when the
  socket raises.
\<close>

definition send_response :: "env \<Rightarrow> nat \<Rightarrow> state \<Rightarrow> state" where
  "send_response E code s =
     s\<lparr>headers_buffer := headers_buffer s @
          [StatusLine code,
           HeaderLine ''Server'' (version_string E),
           HeaderLine ''Date'' (date_time_string E)]\<rparr>"

definition send_header :: "string \<Rightarrow> string \<Rightarrow> state \<Rightarrow> state" where
  "send_header keyword val s = s\<lparr>headers_buffer := headers_buffer s @ [HeaderLine keyword val]\<rparr>"

definition wfile_write :: "wire list \<Rightarrow> state \<Rightarrow> (exn + unit) \<times> state" where
  "wfile_write items s =
     (case faults s of
        [] \<Rightarrow> (Inr (), s\<lparr>wfile := wfile s @ items\<rparr>)
      | None # fs \<Rightarrow> (Inr (), s\<lparr>wfile := wfile s @ items, faults := fs\<rparr>)
      | Some e # fs \<Rightarrow> (Inl e, s\<lparr>faults := fs\<rparr>))"

text \<open>
  \<open>flush_headers\<close> writes the buffer and empties it afterwards: when the write raises,
  the buffer keeps its lines.
\<close>

definition flush_headers :: "state \<Rightarrow> (exn + unit) \<times> state" where
  "flush_headers s =
     (case wfile_write (headers_buffer s) s of
        (Inl e, s') \<Rightarrow> (Inl e, s')
      | (Inr u, s') \<Rightarrow> (Inr (), s'\<lparr>headers_buffer := []\<rparr>))"

definition end_headers :: "state \<Rightarrow> (exn + unit) \<times> state" where
  "end_headers s = flush_headers (s\<lparr>headers_buffer := headers_buffer s @ [EndHeaders]\<rparr>)"

text \<open>
  The request: its header lines, and the input stream, which is some bytes followed by the
  end of the stream or by an error of the connection.
\<close>

record request =
  headers :: "(string \<times> string) list"
  rfile :: bytes
  rfile_error :: "exn option"

definition lower_char :: "char \<Rightarrow> char" where
  "lower_char c =
     (let n = (of_char c :: nat) in if 65 \<le> n \<and> n \<le> 90 then char_of (n + 32) else c)"

text \<open>\<open>self.headers.get(name)\<close>: the first header of that name, compared without case.\<close>

fun headers_get :: "(string \<times> string) list \<Rightarrow> string \<Rightarrow> string option" where
  "headers_get [] name = None"
| "headers_get ((k, v) # hs) name =
     (if map lower_char k = map lower_char name then Some v else headers_get hs name)"

text \<open>
  \<open>rfile.read(n)\<close> on the buffered reader: \<open>n < -1\<close> is refused, \<open>-1\<close> reads to the
  end of the stream, otherwise \<open>n\<close> bytes are returned, fewer when the stream ends first.
\<close>

definition rfile_read :: "request \<Rightarrow> int \<Rightarrow> exn + bytes" where
  "rfile_read req n =
     (if n < - 1 then Inl (Exn (ascii ''read length must be non-negative or -1''))
      else if 0 \<le> n \<and> nat n \<le> length (rfile req) then Inr (take (nat n) (rfile req))
      else (case rfile_error req of Some e \<Rightarrow> Inl e | None \<Rightarrow> Inr (rfile req)))"

section \<open>Formatting\<close>

text \<open>\<open>str(n)\<close> for a length.\<close>

definition digit_char :: "nat \<Rightarrow> char" where
  "digit_char d = char_of (48 + d)"

fun str_nat :: "nat \<Rightarrow> string" where
  "str_nat n = (if n < 10 then [digit_char n] else str_nat (n div 10) @ [digit_char (n mod 10)])"

declare str_nat.simps [simp del]

text \<open>
  \<open>json.dumps({"error": msg})\<close>, with the default \<open>ensure_ascii\<close>: every character
  outside the printable ASCII range, the quote and the backslash are escaped, code points
  above \<open>0xFFFF\<close> as a surrogate pair. The result is ASCII, so \<open>.encode()\<close> gives the same
  characters as bytes.
\<close>

definition hex_digit :: "nat \<Rightarrow> char" where
  "hex_digit d = (if d < 10 then char_of (48 + d) else char_of (87 + d))"

definition hex4 :: "nat \<Rightarrow> string" where
  "hex4 n = [hex_digit (n div 4096 mod 16), hex_digit (n div 256 mod 16),
             hex_digit (n div 16 mod 16), hex_digit (n mod 16)]"

definition escape_char :: "nat \<Rightarrow> string" where
  "escape_char n =
     (if n = 0x5C then [CHR 0x5C, CHR 0x5C]
      else if n = 0x22 then [CHR 0x5C, CHR 0x22]
      else if 0x20 \<le> n \<and> n \<le> 0x7E then [char_of n]
      else if n = 0x08 then [CHR 0x5C, CHR ''b'']
      else if n = 0x0C then [CHR 0x5C, CHR ''f'']
      else if n = 0x0A then [CHR 0x5C, CHR ''n'']
      else if n = 0x0D then [CHR 0x5C, CHR ''r'']
      else if n = 0x09 then [CHR 0x5C, CHR ''t'']
      else if n < 0x10000 then [CHR 0x5C, CHR ''u''] @ hex4 n
      else (let m = n - 0x10000
            in [CHR 0x5C, CHR ''u''] @ hex4 (0xD800 + m div 1024 mod 1024)
               @ [CHR 0x5C, CHR ''u''] @ hex4 (0xDC00 + m mod 1024)))"

definition encode_basestring_ascii :: "pystr \<Rightarrow> string" where
  "encode_basestring_ascii s = [CHR 0x22] @ concat (map escape_char s) @ [CHR 0x22]"

definition error_msg :: "exn \<Rightarrow> bytes" where
  \<open>error_msg e = ''{"error": '' @ encode_basestring_ascii (str_exn e) @ ''}''\<close>

text \<open>The bytes literal of line 37.\<close>

definition no_text_provided :: bytes where
  \<open>no_text_provided = ''{"error": "No text provided"}''\<close>

section \<open>The handler\<close>

text \<open>Lines 28 and 29: the length, the read and the decoding.\<close>

definition content_length :: "env \<Rightarrow> request \<Rightarrow> exn + int" where
  "content_length E req =
     (case headers_get (headers req) ''Content-Length'' of
        None \<Rightarrow> Inr 0
      | Some v \<Rightarrow> py_int E v)"

definition read_body :: "env \<Rightarrow> request \<Rightarrow> exn + pystr" where
  "read_body E req =
     (case content_length E req of
        Inl e \<Rightarrow> Inl e
      | Inr n \<Rightarrow>
          (case rfile_read req n of
             Inl e \<Rightarrow> Inl e
           | Inr raw \<Rightarrow> decode_utf8 E raw))"

text \<open>Lines 31 and 32.\<close>

definition extract_text :: "env \<Rightarrow> pystr \<Rightarrow> exn + json" where
  "extract_text E body =
     (case json_loads E body of
        Inl e \<Rightarrow> Inl e
      | Inr data \<Rightarrow> dict_get data (ascii ''text'') (JStr []))"

text \<open>Lines 35 to 38, the answer to a request without text.\<close>

definition reject_empty :: "state \<Rightarrow> (exn + unit) \<times> state" where
  "reject_empty s =
     (case end_headers (send_header ''Content-Type'' ''application/json'' s) of
        (Inl e, s') \<Rightarrow> (Inl e, s')
      | (Inr u, s') \<Rightarrow> wfile_write [Body no_text_provided] s')"

text \<open>Lines 44 to 47, the audio response.\<close>

definition send_audio :: "bytes \<Rightarrow> state \<Rightarrow> (exn + unit) \<times> state" where
  "send_audio audio s =
     (case end_headers
             (send_header ''Content-Length'' (str_nat (length audio))
               (send_header ''Content-Type'' ''audio/mpeg'' s)) of
        (Inl e, s') \<Rightarrow> (Inl e, s')
      | (Inr u, s') \<Rightarrow> wfile_write [Body audio] s')"

text \<open>The body of the \<open>try\<close> statement, lines 27 to 47.\<close>

definition try_block :: "env \<Rightarrow> request \<Rightarrow> state \<Rightarrow> (exn + unit) \<times> state" where
  "try_block E req s =
     (case read_body E req of
        Inl e \<Rightarrow> (Inl e, s)
      | Inr body \<Rightarrow>
          (case extract_text E body of
             Inl e \<Rightarrow> (Inl e, s)
           | Inr text \<Rightarrow>
               if falsy text then reject_empty s
               else (case generate_audio E text s of
                       (Inl e, s') \<Rightarrow> (Inl e, s')
                     | (Inr audio, s') \<Rightarrow> send_audio audio s')))"

text \<open>
  The \<open>except Exception as e\<close> clause, lines 50 to 53. An exception raised in here leaves
  \<open>do_POST\<close>.
\<close>

definition except_block :: "exn \<Rightarrow> state \<Rightarrow> (exn + unit) \<times> state" where
  "except_block e s =
     (case end_headers (send_header ''Content-Type'' ''application/json'' s) of
        (Inl e', s') \<Rightarrow> (Inl e', s')
      | (Inr u, s') \<Rightarrow> wfile_write [Body (error_msg e)] s')"

definition cors_origin :: "env \<Rightarrow> state \<Rightarrow> state" where
  "cors_origin E s = send_header ''Access-Control-Allow-Origin'' ''*'' (send_response E 200 s)"

definition do_POST :: "env \<Rightarrow> request \<Rightarrow> state \<Rightarrow> (exn + unit) \<times> state" where
  "do_POST E req s =
     (case try_block E req (cors_origin E s) of
        (Inl e, s') \<Rightarrow> except_block e s'
      | (Inr u, s') \<Rightarrow> (Inr (), s'))"


section \<open>Notions used in the statements\<close>

definition is_audio :: "chunk \<Rightarrow> bool" where
  "is_audio c = (chunk_type c = ascii ''audio'')"

definition payload :: "chunk \<Rightarrow> bytes" where
  "payload c = (case chunk_data c of None \<Rightarrow> [] | Some d \<Rightarrow> d)"


fun status_codes :: "wire list \<Rightarrow> nat list" where
  "status_codes [] = []"
| "status_codes (StatusLine c # w) = c # status_codes w"
| "status_codes (x # w) = status_codes w"

text \<open>What lines 23 and 24 put in front of every response.\<close>

definition preamble :: "env \<Rightarrow> wire list" where
  "preamble E =
     [StatusLine 200,
      HeaderLine ''Server'' (version_string E),
      HeaderLine ''Date'' (date_time_string E),
      HeaderLine ''Access-Control-Allow-Origin'' ''*'']"


text \<open>The number a string of decimal digits denotes.\<close>

definition decimal_value :: "string \<Rightarrow> nat" where
  "decimal_value s = foldl (\<lambda>a c. 10 * a + (of_char c - 48)) 0 s"


section \<open>A concrete environment for the examples\<close>

text \<open>
  An engine that answers a string with two audio chunks around a word boundary event, a
  single blank with a stream that carries no audio, and anything that is not a string with
  the \<open>TypeError\<close> of \<open>edge_tts.Communicate\<close>.
\<close>

definition test_engine :: "json \<Rightarrow> pystr \<Rightarrow> exn + stream_item list" where
  "test_engine text voice =
     (case text of
        JStr t \<Rightarrow>
          if t = ascii '' '' then Inr []
          else Inr [Yield \<lparr>chunk_type = ascii ''audio'', chunk_data = Some ''ID3''\<rparr>,
                    Yield \<lparr>chunk_type = ascii ''WordBoundary'', chunk_data = None\<rparr>,
                    Yield \<lparr>chunk_type = ascii ''audio'', chunk_data = Some ''mp3''\<rparr>]
      | _ \<Rightarrow> Inl (Exn (ascii ''text must be str'')))"

text \<open>
  A decoder that knows the documents of the examples and answers every other input as
  \<open>json.loads\<close> answers the empty string and \<open>not json\<close>.
\<close>

definition test_loads :: "pystr \<Rightarrow> exn + json" where
  \<open>test_loads s =
     (if s = ascii ''{"text": "Hello world"}''
        then Inr (JObj [(ascii ''text'', JStr (ascii ''Hello world''))])
      else if s = ascii ''{"text": " "}'' then Inr (JObj [(ascii ''text'', JStr (ascii '' ''))])
      else if s = ascii ''{"text": ""}'' then Inr (JObj [(ascii ''text'', JStr [])])
      else if s = ascii ''{}'' then Inr (JObj [])
      else if s = ascii ''{"text": null}'' then Inr (JObj [(ascii ''text'', JNull)])
      else if s = ascii ''{"text": 5}'' then Inr (JObj [(ascii ''text'', JInt 5)])
      else Inl (Exn (ascii ''Expecting value: line 1 column 1 (char 0)'')))\<close>

definition test_decode :: "bytes \<Rightarrow> exn + pystr" where
  "test_decode b =
     (if list_all (\<lambda>c. (of_char c :: nat) < 128) b then Inr (map of_char b)
      else Inl (Exn (ascii ''invalid start byte'')))"

definition test_int :: "string \<Rightarrow> exn + int" where
  "test_int v =
     (if v \<noteq> [] \<and> list_all (\<lambda>c. 48 \<le> (of_char c :: nat) \<and> (of_char c :: nat) \<le> 57) v
      then Inr (int (decimal_value v))
      else Inl (Exn (ascii ''invalid literal for int() with base 10'')))"

definition test_env :: env where
  "test_env =
     \<lparr>py_int = test_int, decode_utf8 = test_decode, json_loads = test_loads,
      communicate = test_engine,
      version_string = ''BaseHTTP/0.6 Python/3.12.3'',
      date_time_string = ''Thu, 01 Jan 2026 00:00:00 GMT''\<rparr>"

text \<open>A request that announces its body, and one without any header.\<close>

definition post :: "bytes \<Rightarrow> request" where
  "post b =
     \<lparr>headers = [(''Content-Type'', ''application/json''),
                 (''content-length'', str_nat (length b))],
      rfile = b, rfile_error = None\<rparr>"



section \<open>Auxiliary facts\<close>

lemma consume_yields:
  "\<forall>c \<in> set cs. is_audio c \<longrightarrow> chunk_data c \<noteq> None \<Longrightarrow>
   consume (map Yield cs) buf = Inr (buf @ concat (map payload (filter is_audio cs)))"
  by (induction cs arbitrary: buf) (auto simp: is_audio_def payload_def)








lemma cors_origin_fresh:
  "cors_origin E (fresh fs) =
     \<lparr>headers_buffer = preamble E, wfile = [], faults = fs, engine_calls = []\<rparr>"
  by (simp add: cors_origin_def send_header_def send_response_def fresh_def preamble_def)







section \<open>The audio buffer\<close>

text \<open>
  C1. When the engine's stream is a finite sequence of chunks, each audio chunk carrying
  its \<open>data\<close>, \<open>generate_audio\<close> returns the concatenation, in arrival order, of the
  data of exactly the chunks whose type is \<open>audio\<close>; the other chunks add nothing.
\<close>

theorem generate_audio_concat:
  assumes "communicate E text VOICE = Inr (map Yield cs)"
    and "\<forall>c \<in> set cs. is_audio c \<longrightarrow> chunk_data c \<noteq> None"
  shows "fst (generate_audio E text s) = Inr (concat (map payload (filter is_audio cs)))"
  using assms by (simp add: generate_audio_def consume_yields)

theorem generate_audio_concat_witness:
  "communicate test_env (JStr (ascii ''Hello world'')) VOICE =
     Inr (map Yield
       [\<lparr>chunk_type = ascii ''audio'', chunk_data = Some ''ID3''\<rparr>,
        \<lparr>chunk_type = ascii ''WordBoundary'', chunk_data = None\<rparr>,
        \<lparr>chunk_type = ascii ''audio'', chunk_data = Some ''mp3''\<rparr>])
   \<and> fst (generate_audio test_env (JStr (ascii ''Hello world'')) (fresh [])) = Inr ''ID3mp3''"
proof -
  let ?cs = "[\<lparr>chunk_type = ascii ''audio'', chunk_data = Some ''ID3''\<rparr>,
              \<lparr>chunk_type = ascii ''WordBoundary'', chunk_data = None\<rparr>,
              \<lparr>chunk_type = ascii ''audio'', chunk_data = Some ''mp3''\<rparr>]"
  have stream: "communicate test_env (JStr (ascii ''Hello world'')) VOICE = Inr (map Yield ?cs)"
    by (simp add: test_env_def test_engine_def ascii_def)
  have data: "\<forall>c \<in> set ?cs. is_audio c \<longrightarrow> chunk_data c \<noteq> None"
    by (simp add: is_audio_def ascii_def)
  have "fst (generate_audio test_env (JStr (ascii ''Hello world'')) (fresh [])) =
          Inr (concat (map payload (filter is_audio ?cs)))"
    by (rule generate_audio_concat [OF stream data])
  then show ?thesis
    using stream by (simp add: is_audio_def payload_def ascii_def)
qed

section \<open>The audio response\<close>





section \<open>Requests without text\<close>


lemma engine_calls_send_header [simp]:
  "engine_calls (send_header k v s) = engine_calls s"
  by (simp add: send_header_def)

lemma engine_calls_wfile_write [simp]:
  "engine_calls (snd (wfile_write items s)) = engine_calls s"
  by (simp add: wfile_write_def split: list.splits option.splits)

lemma engine_calls_end_headers [simp]:
  "engine_calls (snd (end_headers s)) = engine_calls s"
  by (simp add: end_headers_def flush_headers_def wfile_write_def
      split: list.splits option.splits)

lemma engine_calls_respond:
  "engine_calls (snd (case end_headers s of
                        (Inl e, s') \<Rightarrow> (Inl e, s')
                      | (Inr u, s') \<Rightarrow> wfile_write [Body b] s')) = engine_calls s"
  by (simp add: end_headers_def flush_headers_def wfile_write_def
      split: list.splits option.splits)

lemma engine_calls_reject_empty [simp]:
  "engine_calls (snd (reject_empty s)) = engine_calls s"
  by (simp add: reject_empty_def engine_calls_respond)

lemma engine_calls_except_block [simp]:
  "engine_calls (snd (except_block e s)) = engine_calls s"
  by (simp add: except_block_def engine_calls_respond)

lemma engine_calls_send_audio [simp]:
  "engine_calls (snd (send_audio audio s)) = engine_calls s"
  by (simp add: send_audio_def engine_calls_respond)

lemma engine_calls_do_POST:
  "engine_calls (snd (do_POST E req s)) = engine_calls (snd (try_block E req (cors_origin E s)))"
  by (simp add: do_POST_def split: prod.splits sum.splits)





section \<open>Exceptions before the response\<close>



section \<open>Status line and CORS header\<close>

lemma status_codes_append [simp]:
  "status_codes (a @ b) = status_codes a @ status_codes b"
  by (induction a rule: status_codes.induct) simp_all
















section \<open>The preflight request\<close>



section \<open>The voice\<close>

lemma engine_calls_generate_audio:
  "engine_calls (snd (generate_audio E text s)) = engine_calls s @ [(text, VOICE)]"
  by (simp add: generate_audio_def Let_def split: sum.splits)

lemma engine_calls_try_block:
  "engine_calls (snd (try_block E req s)) = engine_calls s
   \<or> (\<exists>t. \<not> falsy t \<and> engine_calls (snd (try_block E req s)) = engine_calls s @ [(t, VOICE)])"
proof (cases "read_body E req")
  case (Inl e)
  then show ?thesis by (simp add: try_block_def)
next
  case body: (Inr body)
  show ?thesis
  proof (cases "extract_text E body")
    case (Inl e)
    then show ?thesis using body by (simp add: try_block_def)
  next
    case extracted: (Inr t)
    show ?thesis
    proof (cases "falsy t")
      case True
      then show ?thesis using body extracted by (simp add: try_block_def)
    next
      case False
      obtain r s' where g: "generate_audio E t s = (r, s')"
        by (cases "generate_audio E t s")
      have "engine_calls s' = engine_calls s @ [(t, VOICE)]"
        using engine_calls_generate_audio [of E t s] g by simp
      then have "engine_calls (snd (try_block E req s)) = engine_calls s @ [(t, VOICE)]"
        using body extracted False g by (cases r) (simp_all add: try_block_def)
      then show ?thesis using False by blast
    qed
  qed
qed

text \<open>
  C7. \<open>generate_audio\<close> invokes the engine once, with the text it was given and the
  constant \<open>VOICE\<close>, which is \<open>en-GB-RyanNeural\<close>; whatever the request, every engine call
  of \<open>do_POST\<close> carries that voice; and the result of \<open>generate_audio\<close> depends on the
  engine only through its answer for that voice.
\<close>

theorem voice_is_fixed:
  "engine_calls (snd (generate_audio E text s)) = engine_calls s @ [(text, VOICE)]
   \<and> snd ` set (engine_calls (snd (do_POST E req (fresh fs)))) \<subseteq> {VOICE}
   \<and> VOICE = ascii ''en-GB-RyanNeural''
   \<and> (communicate E text VOICE = communicate E' text VOICE \<longrightarrow>
        generate_audio E text s = generate_audio E' text s)"
proof -
  have calls: "engine_calls (snd (generate_audio E text s)) = engine_calls s @ [(text, VOICE)]"
    by (rule engine_calls_generate_audio)
  have post: "snd ` set (engine_calls (snd (do_POST E req (fresh fs)))) \<subseteq> {VOICE}"
    using engine_calls_try_block [of E req "cors_origin E (fresh fs)"]
    by (auto simp: engine_calls_do_POST cors_origin_fresh)
  have name: "VOICE = ascii ''en-GB-RyanNeural''"
    by (rule VOICE_def)
  have same: "communicate E text VOICE = communicate E' text VOICE \<longrightarrow>
        generate_audio E text s = generate_audio E' text s"
    by (simp add: generate_audio_def)
  from calls post name same show ?thesis
    by (intro conjI)
qed

theorem voice_is_fixed_witness:
  \<open>engine_calls (snd (do_POST test_env (post ''{"text": "Hello world"}'') (fresh []))) =
     [(JStr (ascii ''Hello world''), ascii ''en-GB-RyanNeural'')]
   \<and> snd ` set (engine_calls (snd (do_POST test_env (post ''{"text": "Hello world"}'') (fresh []))))
       \<subseteq> {VOICE}\<close>
proof -
  have calls: \<open>engine_calls (snd (do_POST test_env (post ''{"text": "Hello world"}'') (fresh []))) =
     [(JStr (ascii ''Hello world''), ascii ''en-GB-RyanNeural'')]\<close>
    by code_simp
  from voice_is_fixed [of test_env "JStr []" "fresh []" \<open>post ''{"text": "Hello world"}''\<close> "[]"
      test_env] calls
  show ?thesis
    by simp
qed

section \<open>A request without \<open>Content-Length\<close>\<close>






section \<open>Falsy and truthy values of \<open>text\<close>\<close>




section \<open>A failure while the audio response is written\<close>







end
